theory Spec2Isabelle
  imports Main "HOL-Library.Word" "HOL-Library.Code_Target_Numeral"
begin

section \<open>The EVM interpreter of the Boker chain (package vm)\<close>

text \<open>
  The development embeds \<^verbatim>\<open>NewInterpreter\<close>, \<^verbatim>\<open>enforceRestrictions\<close> and
  \<^verbatim>\<open>Interpreter.Run\<close> of the virtual machine package (the part of
  \<^verbatim>\<open>src/unnamed/part_002\<close> that begins with \<^verbatim>\<open>package vm\<close>; line numbers are those
  of that file), together with the protocol constants of
  \<^verbatim>\<open>src/chain/params/protocol_params.go\<close>. Everything the three functions reach
  through a pointer (the EVM, the interpreter's own mutable fields, the contract, the
  memory and the stack) is threaded through explicitly as a value; an error is a value
  of type \<open>error\<close>, a nil slice or nil error is \<open>None\<close>, and a Go run-time panic is an
  outcome of its own.
\<close>

subsection \<open>Machine types\<close>

type_synonym OpCode = "8 word"
type_synonym uint64 = "64 word"
type_synonym bytes = "8 word list"

text \<open>
  Go's \<^verbatim>\<open>error\<close> values. The first four are the package's error variables named in
  \<^verbatim>\<open>Run\<close> and \<^verbatim>\<open>enforceRestrictions\<close>; \<open>errInvalidOpcode n\<close> is
  \<^verbatim>\<open>fmt.Errorf("invalid opcode 0x%x", int(op))\<close>; \<open>errOther\<close> stands for any other
  error that a function of the instruction table returns.
\<close>

datatype error =
    errWriteProtection
  | errGasUintOverflow
  | ErrOutOfGas
  | errExecutionReverted
  | errInvalidOpcode int
  | errOther string

text \<open>
  The two protocol constants of the memory fee (protocol\_params.go, lines 14 and 37).
  The function that charges the fee, in gas\_table.go, is not among the sources.
\<close>

definition QuadCoeffDiv :: nat where
  "QuadCoeffDiv = 512"

definition MemoryGas :: nat where
  "MemoryGas = 3"

text \<open>
  Modelled from the spec: the opcode constants \<^verbatim>\<open>STOP\<close> and \<^verbatim>\<open>CALL\<close> (opcodes.go is not
  among the sources). The spec names the two opcodes and leaves their byte values
  open; they are the EVM's standard ones here, and no general theorem below depends
  on them.
\<close>

definition STOP :: OpCode where
  "STOP = 0x00"

definition CALL :: OpCode where
  "CALL = 0xf1"

subsection \<open>Stack, memory, contract\<close>

text \<open>
  Modelled from the spec: the stack (stack.go is not among the sources). It holds
  \<^verbatim>\<open>*big.Int\<close> values in a slice \<^verbatim>\<open>data\<close>, which \<^verbatim>\<open>Run\<close> copies for the tracer with
  \<^verbatim>\<open>for _, val := range stack.data { stackCopy.push(val) }\<close>; \<open>push\<close> appends to
  the top, the last element. The bound of 1024 entries is checked by the operations'
  stack validation before a step, not by the copy, which pushes what the live stack
  holds.
\<close>

record Stack =
  data :: "int list"

definition newstack :: Stack where
  "newstack = \<lparr>data = []\<rparr>"

definition push :: "Stack \<Rightarrow> int \<Rightarrow> Stack" where
  "push st d = st\<lparr>data := data st @ [d]\<rparr>"

text \<open>
  Modelled from the spec: \<^verbatim>\<open>Stack.Back\<close> (stack.go is not among the sources).
  \<open>Back st n\<close> is the item \<open>n\<close> places below the top, so \<open>Back st 2\<close> is the third
  stack item from the top; Go indexes the slice, which panics when the stack holds
  fewer than \<open>n + 1\<close> items (\<open>None\<close> here).
\<close>

definition Back :: "Stack \<Rightarrow> nat \<Rightarrow> int option" where
  "Back st n = (if n < length (data st) then Some (data st ! (length (data st) - n - 1)) else None)"

text \<open>\<^verbatim>\<open>big.Int.BitLen\<close> of Go's standard library: the length of the absolute value in bits.\<close>

fun bitlen_nat :: "nat \<Rightarrow> nat" where
  "bitlen_nat n = (if n = 0 then 0 else Suc (bitlen_nat (n div 2)))"

declare bitlen_nat.simps [simp del]

definition BitLen :: "int \<Rightarrow> nat" where
  "BitLen v = bitlen_nat (nat \<bar>v\<bar>)"

text \<open>
  Modelled from the spec: the memory (memory.go is not among the sources). A byte
  buffer, initially empty; \<open>Resize\<close> grows it to at least the given size, zero-filling
  the new region, and never shrinks it.
\<close>

record Memory =
  store :: bytes

definition NewMemory :: Memory where
  "NewMemory = \<lparr>store = []\<rparr>"

definition Resize :: "Memory \<Rightarrow> uint64 \<Rightarrow> Memory" where
  "Resize mm size' =
     (if length (store mm) < unat size'
      then mm\<lparr>store := store mm @ replicate (unat size' - length (store mm)) 0\<rparr>
      else mm)"

text \<open>
  The contract: its code, its input and its gas counter. The code hash that \<^verbatim>\<open>Run\<close>
  reads into a local (lines 374 to 377) is never used afterwards and is left out.
\<close>

record Contract =
  Code :: bytes
  Input :: "bytes option"
  Gas :: uint64

text \<open>
  Modelled from the spec: \<^verbatim>\<open>Contract.GetOp\<close> and \<^verbatim>\<open>Contract.UseGas\<close> (contract.go is
  not among the sources). An opcode beyond the code's length is an implicit STOP; using
  gas deducts the cost from the gas counter and fails, leaving the counter as it was,
  when the counter is smaller than the cost.
\<close>

definition GetOp :: "Contract \<Rightarrow> uint64 \<Rightarrow> OpCode" where
  "GetOp c n = (if unat n < length (Code c) then Code c ! unat n else STOP)"

definition UseGas :: "Contract \<Rightarrow> uint64 \<Rightarrow> bool \<times> Contract" where
  "UseGas c g = (if Gas c < g then (False, c) else (True, c\<lparr>Gas := Gas c - g\<rparr>))"

subsection \<open>The EVM and the state an operation can reach\<close>

text \<open>
  The chain configuration with its fork-activation block numbers (nil when a fork is
  not scheduled) and its gas table per block number; \<open>'g\<close> is \<^verbatim>\<open>params.GasTable\<close>.
\<close>

record 'g ChainConfig =
  HomesteadBlock :: "int option"
  ByzantiumBlock :: "int option"
  GasTable :: "int \<Rightarrow> 'g"

record Rules =
  IsByzantium :: bool

text \<open>
  The fields of the EVM that the interpreter reads or writes: the call depth (a Go
  \<^verbatim>\<open>int\<close>, 64 bits wide), the abort flag (an \<^verbatim>\<open>int32\<close> read atomically), the chain rules
  and chain configuration, the block number, and the rest of the environment (state
  database, call context) as \<open>world\<close>.
\<close>

record ('w, 'g) EVM =
  depth :: "64 word"
  abort :: "32 word"
  chainRules :: Rules
  chainConfig :: "'g ChainConfig"
  BlockNumber :: int
  world :: 'w

text \<open>One call of \<^verbatim>\<open>Tracer.CaptureState\<close>, as the tracer receives it.\<close>

record capture =
  c_pc :: uint64
  c_op :: OpCode
  c_gas :: uint64
  c_cost :: uint64
  c_mem :: bytes
  c_stack :: "int list"
  c_depth :: "64 word"
  c_err :: "error option"

text \<open>
  What a gas-cost or execution function can reach through the pointers it is given:
  the EVM, through it the interpreter's mutable fields \<^verbatim>\<open>readOnly\<close> and
  \<^verbatim>\<open>returnData\<close> and the tracer's captures, and the contract, memory and stack of the
  frame.
\<close>

record ('w, 'g) machine =
  evm :: "('w, 'g) EVM"
  readOnly :: bool
  returnData :: "bytes option"
  tracer :: "capture list"
  contract :: Contract
  mem :: Memory
  stack :: Stack

subsection \<open>Operations and configuration\<close>

text \<open>
  The operation descriptor (jump\_table.go is not among the sources; the fields are
  those \<^verbatim>\<open>Run\<close> uses). \<open>execute\<close> takes the program counter and returns the result
  bytes, the error, the new program counter and the new machine; \<open>gasCost\<close> takes the
  gas table, the machine and the memory size and returns the cost, the error and the
  new machine; \<open>validateStack\<close> and \<open>memorySize\<close> only read the stack, and
  \<open>memorySize\<close> is nil for an operation that touches no memory. The functions
  themselves are parameters: every theorem holds for any table.
\<close>

record ('w, 'g) operation =
  execute :: "uint64 \<Rightarrow> ('w, 'g) machine \<Rightarrow> bytes option \<times> error option \<times> uint64 \<times> ('w, 'g) machine"
  gasCost :: "'g \<Rightarrow> ('w, 'g) machine \<Rightarrow> uint64 \<Rightarrow> uint64 \<times> error option \<times> ('w, 'g) machine"
  validateStack :: "Stack \<Rightarrow> error option"
  memorySize :: "(Stack \<Rightarrow> int) option"
  halts :: bool
  jumps :: bool
  writes :: bool
  valid :: bool
  reverts :: bool
  returns :: bool

record ('w, 'g) Config =
  Debug :: bool
  EnableJit :: bool
  ForceJit :: bool
  NoRecursion :: bool
  DisableGasMetering :: bool
  EnablePreimageRecording :: bool
  JumpTable :: "OpCode \<Rightarrow> ('w, 'g) operation"

text \<open>
  The interpreter as \<^verbatim>\<open>NewInterpreter\<close> builds it. The integer pool is an allocation
  cache without observable effect and is left out. The captures that the configured
  tracer has received are kept beside the configuration, as \<open>in_tracer\<close>, because
  \<^verbatim>\<open>Run\<close> adds to them while the configuration itself stays as it is.
\<close>

record ('w, 'g) Interpreter =
  in_evm :: "('w, 'g) EVM"
  cfg :: "('w, 'g) Config"
  gasTable :: 'g
  in_readOnly :: bool
  in_returnData :: "bytes option"
  in_tracer :: "capture list"

subsection \<open>NewInterpreter (lines 316 to 340)\<close>

text \<open>
  The switch over the fork rules is commented out in the source; what runs is the
  test of the STOP entry and the assignment of the Homestead instruction set, which
  is a package variable of jump\_table.go and a parameter here.
\<close>

definition NewInterpreter ::
  "(OpCode \<Rightarrow> ('w, 'g) operation) \<Rightarrow> ('w, 'g) EVM \<Rightarrow> ('w, 'g) Config \<Rightarrow> capture list
     \<Rightarrow> ('w, 'g) Interpreter" where
  "NewInterpreter homesteadInstructionSet e c tr =
     (let c' = (if \<not> valid (JumpTable c STOP) then c\<lparr>JumpTable := homesteadInstructionSet\<rparr> else c)
      in \<lparr>in_evm = e, cfg = c', gasTable = GasTable (chainConfig e) (BlockNumber e),
          in_readOnly = False, in_returnData = None, in_tracer = tr\<rparr>)"

subsection \<open>enforceRestrictions (lines 342 to 356)\<close>

datatype 'a panicking = Value 'a | RuntimePanic

text \<open>
  \<^verbatim>\<open>writes || (op == CALL && stack.Back(2).BitLen() > 0)\<close> evaluates \<^verbatim>\<open>Back\<close> only
  when the operation does not write and the opcode is CALL.
\<close>

definition enforceRestrictions ::
  "('w, 'g) machine \<Rightarrow> OpCode \<Rightarrow> ('w, 'g) operation \<Rightarrow> Stack \<Rightarrow> error option panicking" where
  "enforceRestrictions mc opc operation st =
     (if IsByzantium (chainRules (evm mc)) then
        (if readOnly mc then
           (if writes operation then Value (Some errWriteProtection)
            else if opc = CALL then
              (case Back st 2 of
                 None \<Rightarrow> RuntimePanic
               | Some v \<Rightarrow> if BitLen v > 0 then Value (Some errWriteProtection) else Value None)
            else Value None)
         else Value None)
      else Value None)"

subsection \<open>The loop state of Run\<close>

text \<open>
  The local variables of \<^verbatim>\<open>Run\<close> that live across iterations (lines 379 to 393),
  next to the machine.
\<close>

record ('w, 'g) frame =
  mach :: "('w, 'g) machine"
  pc :: uint64
  op :: OpCode
  cost :: uint64
  stackCopy :: Stack
  pcCopy :: uint64
  gasCopy :: uint64
  logged :: bool

text \<open>
  What one iteration of the loop body does: it falls through to the next iteration,
  executes a \<^verbatim>\<open>return\<close> with the values of \<^verbatim>\<open>ret\<close> and \<^verbatim>\<open>err\<close>, or panics.
\<close>

datatype ('w, 'g) outcome =
    Continue "('w, 'g) frame"
  | Finished "bytes option" "error option" "('w, 'g) frame"
  | Panicked "('w, 'g) frame"

text \<open>
  \<^verbatim>\<open>in.cfg.Tracer.CaptureState(in.evm, pc, op, gas, cost, mem, stackCopy, contract,
  in.evm.depth, err)\<close>: the tracer records its arguments; the error it returns is
  ignored by \<^verbatim>\<open>Run\<close>. A configuration with \<^verbatim>\<open>Debug\<close> set is taken to have a tracer
  attached.
\<close>

definition CaptureState ::
  "('w, 'g) machine \<Rightarrow> uint64 \<Rightarrow> OpCode \<Rightarrow> uint64 \<Rightarrow> uint64 \<Rightarrow> Stack \<Rightarrow> error option
     \<Rightarrow> ('w, 'g) machine" where
  "CaptureState mc p opc g c stk e =
     mc\<lparr>tracer := tracer mc @
        [\<lparr>c_pc = p, c_op = opc, c_gas = g, c_cost = c, c_mem = store (mem mc),
          c_stack = data stk, c_depth = depth (evm mc), c_err = e\<rparr>]\<rparr>"

subsection \<open>The memory size of a step (lines 446 to 462)\<close>

text \<open>
  Modelled from the spec: \<^verbatim>\<open>bigUint64\<close>, \<^verbatim>\<open>toWordSize\<close> (common.go of the package)
  and \<^verbatim>\<open>math.SafeMul\<close> are not among the sources. \<open>bigUint64\<close> converts a big integer
  to 64 bits and reports an overflow when it does not fit; \<open>toWordSize\<close> is the size
  in 32-byte words, rounded up; \<open>SafeMul\<close> is the 64-bit product with its overflow flag.
\<close>

definition bigUint64 :: "int \<Rightarrow> uint64 \<times> bool" where
  "bigUint64 v = (word_of_int \<bar>v\<bar>, BitLen v > 64)"

definition toWordSize :: "uint64 \<Rightarrow> uint64" where
  "toWordSize size' = word_of_nat ((unat size' + 31) div 32)"

definition SafeMul :: "uint64 \<Rightarrow> uint64 \<Rightarrow> uint64 \<times> bool" where
  "SafeMul x y = (x * y, 2 ^ 64 \<le> unat x * unat y)"

definition calcMemorySize :: "('w, 'g) operation \<Rightarrow> Stack \<Rightarrow> error + uint64" where
  "calcMemorySize operation st =
     (case memorySize operation of
        None \<Rightarrow> Inr 0
      | Some f \<Rightarrow>
          (case bigUint64 (f st) of
             (memSize, overflow) \<Rightarrow>
               if overflow then Inl errGasUintOverflow
               else (case SafeMul (toWordSize memSize) 32 of
                       (memorySize', overflow') \<Rightarrow>
                         if overflow' then Inl errGasUintOverflow else Inr memorySize')))"

subsection \<open>The loop body of Run (lines 417 to 511)\<close>

text \<open>Lines 417 to 427: fetch the opcode; under \<^verbatim>\<open>Debug\<close>, take the tracer's copies.\<close>

definition fetch :: "('w, 'g) Config \<Rightarrow> ('w, 'g) frame \<Rightarrow> ('w, 'g) frame" where
  "fetch c s =
     (let s1 = s\<lparr>op := GetOp (contract (mach s)) (pc s)\<rparr>
      in if Debug c
         then s1\<lparr>logged := False, pcCopy := pc s1, gasCopy := Gas (contract (mach s1)),
                 stackCopy := foldl push newstack (data (stack (mach s1)))\<rparr>
         else s1)"

text \<open>
  Lines 484 to 511: execute the operation, keep its result as the return data when
  the operation returns, and classify. The \<^verbatim>\<open>err\<close> of line 484 is a new variable of
  the loop body.
\<close>

definition dispatch :: "('w, 'g) operation \<Rightarrow> ('w, 'g) frame \<Rightarrow> ('w, 'g) outcome" where
  "dispatch operation s =
     (case execute operation (pc s) (mach s) of
        (res, err, pc', mc') \<Rightarrow>
          (let mc'' = (if returns operation then mc'\<lparr>returnData := res\<rparr> else mc');
               s' = s\<lparr>mach := mc'', pc := pc'\<rparr>
           in case err of
                Some e \<Rightarrow> Finished None (Some e) s'
              | None \<Rightarrow>
                  if reverts operation then Finished res (Some errExecutionReverted) s'
                  else if halts operation then Finished res None s'
                  else if \<not> jumps operation then Continue (s'\<lparr>pc := pc' + 1\<rparr>)
                  else Continue s'))"

text \<open>
  Lines 474 to 481: grow the memory, capture the state for the tracer. The \<^verbatim>\<open>err\<close>
  passed to the tracer is the function's named result, which is nil whenever this
  line is reached.
\<close>

definition prepare :: "('w, 'g) Config \<Rightarrow> uint64 \<Rightarrow> ('w, 'g) frame \<Rightarrow> ('w, 'g) frame" where
  "prepare c memorySize' s =
     (let s1 = (if memorySize' > 0
                then s\<lparr>mach := (mach s)\<lparr>mem := Resize (mem (mach s)) memorySize'\<rparr>\<rparr>
                else s)
      in if Debug c
         then s1\<lparr>mach := CaptureState (mach s1) (pc s1) (op s1) (gasCopy s1) (cost s1)
                           (stackCopy s1) None,
                 logged := True\<rparr>
         else s1)"

text \<open>
  Lines 464 to 473: unless gas metering is disabled, compute the cost and use the
  gas. \<^verbatim>\<open>err != nil || !contract.UseGas(cost)\<close> calls \<^verbatim>\<open>UseGas\<close> only when the
  gas-cost function returned no error. The result is the early return, or the frame
  the loop body goes on with.
\<close>

definition chargeGas ::
  "('w, 'g) Config \<Rightarrow> 'g \<Rightarrow> ('w, 'g) operation \<Rightarrow> uint64 \<Rightarrow> ('w, 'g) frame
     \<Rightarrow> ('w, 'g) outcome + ('w, 'g) frame" where
  "chargeGas c gt operation memorySize' s =
     (if \<not> DisableGasMetering c then
        (case gasCost operation gt (mach s) memorySize' of
           (cst, err, mc') \<Rightarrow>
             (let s1 = s\<lparr>mach := mc', cost := cst\<rparr>
              in case err of
                   Some e \<Rightarrow> Inl (Finished None (Some ErrOutOfGas) s1)
                 | None \<Rightarrow>
                     (case UseGas (contract mc') cst of
                        (ok, ctr') \<Rightarrow>
                          if \<not> ok then Inl (Finished None (Some ErrOutOfGas) s1)
                          else Inr (s1\<lparr>mach := mc'\<lparr>contract := ctr'\<rparr>\<rparr>))))
      else Inr s)"

text \<open>
  Lines 446 to 481, what follows the restrictions: the memory size, the gas, the
  growth of the memory and the tracer's capture.
\<close>

definition sizeAndCharge ::
  "('w, 'g) Config \<Rightarrow> 'g \<Rightarrow> ('w, 'g) operation \<Rightarrow> ('w, 'g) frame
     \<Rightarrow> ('w, 'g) outcome + ('w, 'g) operation \<times> ('w, 'g) frame" where
  "sizeAndCharge c gt operation s =
     (case calcMemorySize operation (stack (mach s)) of
        Inl e \<Rightarrow> Inl (Finished None (Some e) s)
      | Inr memorySize' \<Rightarrow>
          (case chargeGas c gt operation memorySize' s of
             Inl out \<Rightarrow> Inl out
           | Inr s' \<Rightarrow> Inr (operation, prepare c memorySize' s')))"

text \<open>
  Lines 417 to 481, everything before the operation executes: the early return of
  the iteration, or the operation and the frame it is executed on.
\<close>

definition preExec ::
  "('w, 'g) Config \<Rightarrow> 'g \<Rightarrow> ('w, 'g) frame
     \<Rightarrow> ('w, 'g) outcome + ('w, 'g) operation \<times> ('w, 'g) frame" where
  "preExec c gt s0 =
     (let s = fetch c s0;
          operation = JumpTable c (op s)
      in if \<not> valid operation
         then Inl (Finished None (Some (errInvalidOpcode (uint (op s)))) s)
         else case validateStack operation (stack (mach s)) of
                Some e \<Rightarrow> Inl (Finished None (Some e) s)
              | None \<Rightarrow>
                  (case enforceRestrictions (mach s) (op s) operation (stack (mach s)) of
                     RuntimePanic \<Rightarrow> Inl (Panicked s)
                   | Value (Some e) \<Rightarrow> Inl (Finished None (Some e) s)
                   | Value None \<Rightarrow> sizeAndCharge c gt operation s))"

text \<open>One iteration of the loop body, lines 417 to 511.\<close>

definition step :: "('w, 'g) Config \<Rightarrow> 'g \<Rightarrow> ('w, 'g) frame \<Rightarrow> ('w, 'g) outcome" where
  "step c gt s =
     (case preExec c gt s of
        Inl out \<Rightarrow> out
      | Inr (operation, sx) \<Rightarrow> dispatch operation sx)"

text \<open>The frame an iteration ends with.\<close>

primrec outcome_frame :: "('w, 'g) outcome \<Rightarrow> ('w, 'g) frame" where
  "outcome_frame (Continue s) = s"
| "outcome_frame (Finished r e s) = s"
| "outcome_frame (Panicked s) = s"

subsection \<open>The loop (lines 411 to 514) and Run (lines 359 to 515)\<close>

datatype run_result = Returned "bytes option" "error option" | Panic

text \<open>
  The loop polls the abort flag before every iteration and leaves with
  \<^verbatim>\<open>return nil, nil\<close> once it is set. It need not terminate (a jump back with gas
  metering disabled): not returning is \<open>None\<close>.
\<close>

partial_function (option) run_loop ::
  "('w, 'g) Config \<Rightarrow> 'g \<Rightarrow> ('w, 'g) frame \<Rightarrow> (run_result \<times> ('w, 'g) frame) option" where
  "run_loop c gt s =
     (if abort (evm (mach s)) = 0 then
        (case step c gt s of
           Continue s' \<Rightarrow> run_loop c gt s'
         | Finished r e s' \<Rightarrow> Some (Returned r e, s')
         | Panicked s' \<Rightarrow> Some (Panic, s'))
      else Some (Returned None None, s))"

declare run_loop.simps [code]

text \<open>
  Entry, lines 362 to 394: the depth goes up by one, the return data is reset, the
  memory and the stack are fresh, the input is stored in the contract.
\<close>

definition Run_entry ::
  "('w, 'g) Interpreter \<Rightarrow> Contract \<Rightarrow> bytes option \<Rightarrow> ('w, 'g) frame" where
  "Run_entry i ctr input =
     \<lparr>mach = \<lparr>evm = (in_evm i)\<lparr>depth := depth (in_evm i) + 1\<rparr>,
              readOnly = in_readOnly i, returnData = None, tracer = in_tracer i,
              contract = ctr\<lparr>Input := input\<rparr>, mem = NewMemory, stack = newstack\<rparr>,
      pc = 0, op = 0, cost = 0, stackCopy = newstack, pcCopy = 0, gasCopy = 0,
      logged = False\<rparr>"

text \<open>
  Exit: the deferred functions run in reverse order on every way out, a panic
  included. First the tracer's (lines 396 to 400), which captures the state when the
  run returns an error that was not logged; then the depth goes down by one (line 363).
  At a panic the named result \<^verbatim>\<open>err\<close> is nil.
\<close>

definition Run_exit ::
  "('w, 'g) Interpreter \<Rightarrow> run_result \<times> ('w, 'g) frame
     \<Rightarrow> run_result \<times> ('w, 'g) Interpreter \<times> Contract" where
  "Run_exit i rs =
     (case rs of
        (res, s) \<Rightarrow>
          (let mc1 = (case res of
                        Returned r (Some e) \<Rightarrow>
                          if \<not> logged s \<and> Debug (cfg i)
                          then CaptureState (mach s) (pcCopy s) (op s) (gasCopy s) (cost s)
                                 (stackCopy s) (Some e)
                          else mach s
                      | Returned r None \<Rightarrow> mach s
                      | Panic \<Rightarrow> mach s);
               e' = (evm mc1)\<lparr>depth := depth (evm mc1) - 1\<rparr>
           in (res,
               i\<lparr>in_evm := e', in_readOnly := readOnly mc1, in_returnData := returnData mc1,
                 in_tracer := tracer mc1\<rparr>,
               contract mc1)))"

text \<open>
  \<^verbatim>\<open>Run(snapshot, contract, input)\<close>. With empty code it returns \<^verbatim>\<open>nil, nil\<close> before
  the input is stored and before the tracer's deferred function is registered; the
  depth has gone up and comes down again. The result is \<open>None\<close> when the loop does not
  return.
\<close>

definition Run ::
  "('w, 'g) Interpreter \<Rightarrow> int \<Rightarrow> Contract \<Rightarrow> bytes option
     \<Rightarrow> (run_result \<times> ('w, 'g) Interpreter \<times> Contract) option" where
  "Run i snapshot ctr input =
     (if length (Code ctr) = 0
      then Some (Returned None None,
                 i\<lparr>in_evm := (in_evm i)\<lparr>depth := depth (in_evm i) + 1 - 1\<rparr>,
                   in_returnData := None\<rparr>,
                 ctr)
      else map_option (Run_exit i) (run_loop (cfg i) (gasTable i) (Run_entry i ctr input)))"

subsection \<open>The selection of the instruction set as the specification words it\<close>

text \<open>
  The specification's selection, which is the switch that the source has commented
  out: the Byzantium set once the Byzantium fork is active at the block number, else
  the Homestead set once Homestead is active, else the Frontier set. A fork is active
  from its activation block on and never when it has none.
\<close>

definition isForked :: "int option \<Rightarrow> int \<Rightarrow> bool" where
  "isForked s head = (case s of None \<Rightarrow> False | Some b \<Rightarrow> b \<le> head)"

definition spec_selectInstructionSet ::
  "(OpCode \<Rightarrow> ('w, 'g) operation) \<Rightarrow> (OpCode \<Rightarrow> ('w, 'g) operation)
     \<Rightarrow> (OpCode \<Rightarrow> ('w, 'g) operation) \<Rightarrow> ('w, 'g) EVM \<Rightarrow> OpCode \<Rightarrow> ('w, 'g) operation" where
  "spec_selectInstructionSet frontier homestead byzantium e =
     (if isForked (ByzantiumBlock (chainConfig e)) (BlockNumber e) then byzantium
      else if isForked (HomesteadBlock (chainConfig e)) (BlockNumber e) then homestead
      else frontier)"

subsection \<open>Example operations, tables and frames\<close>

text \<open>
  A few operations in the shape of the package's own, for running the definitions on
  concrete inputs: the zero value of a table entry, STOP, ADD, MSTORE, SSTORE, PUSH1
  and REVERT, with the world and the gas table trivial.
\<close>

definition ex_zero :: "(unit, unit) operation" where
  "ex_zero =
     \<lparr>execute = (\<lambda>p mc. (None, None, p, mc)), gasCost = (\<lambda>gt mc ms. (0, None, mc)),
      validateStack = (\<lambda>st. None), memorySize = None,
      halts = False, jumps = False, writes = False, valid = False, reverts = False,
      returns = False\<rparr>"

definition ex_needs :: "nat \<Rightarrow> Stack \<Rightarrow> error option" where
  "ex_needs n st = (if length (data st) < n then Some (errOther ''stack underflow'') else None)"

definition ex_STOP :: "(unit, unit) operation" where
  "ex_STOP = ex_zero\<lparr>halts := True, valid := True\<rparr>"

definition ex_ADD :: "(unit, unit) operation" where
  "ex_ADD =
     ex_zero\<lparr>execute := (\<lambda>p mc.
                (None, None, p,
                 mc\<lparr>stack := \<lparr>data = butlast (butlast (data (stack mc))) @
                      [(last (data (stack mc)) + last (butlast (data (stack mc)))) mod 2 ^ 256]\<rparr>\<rparr>)),
             gasCost := (\<lambda>gt mc ms. (3, None, mc)),
             validateStack := ex_needs 2, valid := True\<rparr>"

definition ex_MSTORE :: "(unit, unit) operation" where
  "ex_MSTORE =
     ex_zero\<lparr>execute := (\<lambda>p mc.
                (None, None, p, mc\<lparr>stack := \<lparr>data = butlast (butlast (data (stack mc)))\<rparr>\<rparr>)),
             gasCost := (\<lambda>gt mc ms. (3, None, mc)),
             validateStack := ex_needs 2,
             memorySize := Some (\<lambda>st. last (data st) + 32), valid := True\<rparr>"

definition ex_SSTORE :: "(unit, unit) operation" where
  "ex_SSTORE =
     ex_zero\<lparr>execute := (\<lambda>p mc.
                (None, None, p, mc\<lparr>stack := \<lparr>data = butlast (butlast (data (stack mc)))\<rparr>\<rparr>)),
             gasCost := (\<lambda>gt mc ms. (5000, None, mc)),
             validateStack := ex_needs 2, writes := True, valid := True\<rparr>"

definition ex_PUSH1 :: "(unit, unit) operation" where
  "ex_PUSH1 =
     ex_zero\<lparr>execute := (\<lambda>p mc.
                (None, None, p + 1,
                 mc\<lparr>stack := push (stack mc) (uint (GetOp (contract mc) (p + 1)))\<rparr>)),
             gasCost := (\<lambda>gt mc ms. (3, None, mc)), valid := True\<rparr>"

definition ex_REVERT :: "(unit, unit) operation" where
  "ex_REVERT =
     ex_zero\<lparr>execute := (\<lambda>p mc. (Some [], None, p, mc)),
             validateStack := ex_needs 2, valid := True, reverts := True, returns := True\<rparr>"

definition ex_homestead :: "OpCode \<Rightarrow> (unit, unit) operation" where
  "ex_homestead opc =
     (if opc = 0x00 then ex_STOP
      else if opc = 0x01 then ex_ADD
      else if opc = 0x52 then ex_MSTORE
      else if opc = 0x55 then ex_SSTORE
      else if opc = 0x60 then ex_PUSH1
      else ex_zero)"

definition ex_frontier :: "OpCode \<Rightarrow> (unit, unit) operation" where
  "ex_frontier = ex_homestead"

definition ex_byzantium :: "OpCode \<Rightarrow> (unit, unit) operation" where
  "ex_byzantium opc = (if opc = 0xfd then ex_REVERT else ex_homestead opc)"

text \<open>The Homestead example table run while a canceller sets the abort flag during every step.\<close>

definition ex_cancelled :: "OpCode \<Rightarrow> (unit, unit) operation" where
  "ex_cancelled opc =
     (ex_homestead opc)\<lparr>execute := (\<lambda>p mc.
        case execute (ex_homestead opc) p mc of
          (r, e, p', mc') \<Rightarrow> (r, e, p', mc'\<lparr>evm := (evm mc')\<lparr>abort := 1\<rparr>\<rparr>))\<rparr>"

definition ex_evm :: "(unit, unit) EVM" where
  "ex_evm =
     \<lparr>depth = 0, abort = 0, chainRules = \<lparr>IsByzantium = True\<rparr>,
      chainConfig = \<lparr>HomesteadBlock = Some 0, ByzantiumBlock = Some 0, GasTable = (\<lambda>n. ())\<rparr>,
      BlockNumber = 1, world = ()\<rparr>"

definition ex_cfg :: "(unit, unit) Config" where
  "ex_cfg =
     \<lparr>Debug = False, EnableJit = False, ForceJit = False, NoRecursion = False,
      DisableGasMetering = False, EnablePreimageRecording = False,
      JumpTable = (\<lambda>opc. ex_zero)\<rparr>"

definition ex_in :: "(unit, unit) Interpreter" where
  "ex_in = NewInterpreter ex_homestead ex_evm ex_cfg []"

text \<open>The code PUSH1 1, PUSH1 2, ADD, STOP with a gas budget of 10.\<close>

definition ex_contract :: Contract where
  "ex_contract = \<lparr>Code = [0x60, 0x01, 0x60, 0x02, 0x01, 0x00], Input = None, Gas = 10\<rparr>"

text \<open>A frame at program counter 0 with a given machine.\<close>

definition ex_frame :: "(unit, unit) machine \<Rightarrow> (unit, unit) frame" where
  "ex_frame mc =
     \<lparr>mach = mc, pc = 0, op = 0, cost = 0, stackCopy = newstack, pcCopy = 0, gasCopy = 0,
      logged = False\<rparr>"

definition ex_machine :: "bool \<Rightarrow> bool \<Rightarrow> bytes \<Rightarrow> uint64 \<Rightarrow> int list \<Rightarrow> (unit, unit) machine" where
  "ex_machine byz ro code g stk =
     \<lparr>evm = ex_evm\<lparr>chainRules := \<lparr>IsByzantium = byz\<rparr>\<rparr>, readOnly = ro, returnData = None,
      tracer = [], contract = \<lparr>Code = code, Input = None, Gas = g\<rparr>, mem = NewMemory,
      stack = \<lparr>data = stk\<rparr>\<rparr>"

section \<open>Properties\<close>

subsection \<open>Unfolding the definitions on concrete inputs\<close>

lemmas ex_defs = ex_frame_def ex_machine_def ex_in_def ex_cfg_def ex_evm_def ex_homestead_def
  ex_zero_def ex_STOP_def ex_ADD_def ex_MSTORE_def ex_SSTORE_def ex_PUSH1_def
  ex_needs_def ex_contract_def NewInterpreter_def

lemmas run_defs = step_def preExec_def sizeAndCharge_def chargeGas_def prepare_def dispatch_def
  fetch_def calcMemorySize_def enforceRestrictions_def GetOp_def UseGas_def Back_def
  CaptureState_def Resize_def push_def newstack_def NewMemory_def STOP_def CALL_def Let_def

subsection \<open>The loop, one iteration at a time\<close>

lemma run_loop_abort:
  "abort (evm (mach s)) \<noteq> 0 \<Longrightarrow> run_loop c gt s = Some (Returned None None, s)"
  by (subst run_loop.simps) simp

lemma run_loop_Finished:
  "abort (evm (mach s)) = 0 \<Longrightarrow> step c gt s = Finished r e s' \<Longrightarrow>
   run_loop c gt s = Some (Returned r e, s')"
  by (subst run_loop.simps) simp

lemma run_loop_Continue:
  "abort (evm (mach s)) = 0 \<Longrightarrow> step c gt s = Continue s' \<Longrightarrow>
   run_loop c gt s = run_loop c gt s'"
  by (subst run_loop.simps) simp

lemma run_loop_Panicked:
  "abort (evm (mach s)) = 0 \<Longrightarrow> step c gt s = Panicked s' \<Longrightarrow>
   run_loop c gt s = Some (Panic, s')"
  by (subst run_loop.simps) simp

lemma step_early:
  "preExec c gt s = Inl out \<Longrightarrow> step c gt s = out"
  by (simp add: step_def)

lemma step_dispatch:
  "preExec c gt s = Inr (operation, sx) \<Longrightarrow> step c gt s = dispatch operation sx"
  by (simp add: step_def)

lemma preExec_invalid:
  "\<not> valid (JumpTable c (op (fetch c s))) \<Longrightarrow>
   preExec c gt s =
     Inl (Finished None (Some (errInvalidOpcode (uint (op (fetch c s))))) (fetch c s))"
  by (simp add: preExec_def Let_def)

subsection \<open>Empty code\<close>

text \<open>
  Claim C10. For a contract whose code has length 0, \<^verbatim>\<open>Run\<close> returns at once with nil
  output and no error. No step is executed: the interpreter comes back as it was but
  for the return data, which is reset, and the contract comes back unchanged, its gas
  counter included.
\<close>

theorem Run_empty_code:
  "length (Code ctr) = 0 \<Longrightarrow>
   Run i snap ctr input = Some (Returned None None, i\<lparr>in_returnData := None\<rparr>, ctr)"
  by (simp add: Run_def)

theorem Run_empty_code_witness:
  "length (Code (ex_contract\<lparr>Code := []\<rparr>)) = 0 \<and>
   Run ex_in 0 (ex_contract\<lparr>Code := []\<rparr>) (Some [1, 2]) =
     Some (Returned None None, ex_in, ex_contract\<lparr>Code := []\<rparr>) \<and>
   Gas (ex_contract\<lparr>Code := []\<rparr>) = 10"
  using Run_empty_code [of "ex_contract\<lparr>Code := []\<rparr>" ex_in 0 "Some [1, 2]"]
  by (simp add: ex_contract_def ex_in_def NewInterpreter_def Let_def)

subsection \<open>An invalid first opcode\<close>

text \<open>
  Claim C7. When the first opcode of the code is not a valid entry of the
  interpreter's instruction table, and the abort flag is not set when the loop is
  entered, \<^verbatim>\<open>Run\<close> returns in its first iteration with nil output and the
  invalid-opcode error for that opcode. Nothing was executed and no gas was used: the
  contract comes back with only its input stored, the interpreter with its return data
  reset and, under \<^verbatim>\<open>Debug\<close>, the one capture of the faulting step.
\<close>

theorem Run_invalid_first_opcode:
  assumes "Code ctr = b # rest" and "\<not> valid (JumpTable (cfg i) b)" and "abort (in_evm i) = 0"
  shows "Run i snap ctr input =
     Some (Returned None (Some (errInvalidOpcode (uint b))),
           i\<lparr>in_returnData := None,
             in_tracer := (if Debug (cfg i)
                           then in_tracer i @
                             [\<lparr>c_pc = 0, c_op = b, c_gas = Gas ctr, c_cost = 0, c_mem = [],
                               c_stack = [], c_depth = depth (in_evm i) + 1,
                               c_err = Some (errInvalidOpcode (uint b))\<rparr>]
                           else in_tracer i)\<rparr>,
           ctr\<lparr>Input := input\<rparr>)"
proof -
  let ?s = "Run_entry i ctr input"
  have f: "op (fetch (cfg i) ?s) = b"
    using assms(1) by (simp add: fetch_def Run_entry_def GetOp_def Let_def)
  have a: "abort (evm (mach ?s)) = 0"
    using assms(3) by (simp add: Run_entry_def)
  have "step (cfg i) (gasTable i) ?s =
        Finished None (Some (errInvalidOpcode (uint b))) (fetch (cfg i) ?s)"
    using preExec_invalid [of "cfg i" ?s "gasTable i"] assms(2) f by (simp add: step_early)
  then have "run_loop (cfg i) (gasTable i) ?s =
        Some (Returned None (Some (errInvalidOpcode (uint b))), fetch (cfg i) ?s)"
    using a by (rule run_loop_Finished [rotated])
  then show ?thesis
    using assms(1)
    by (simp add: Run_def Run_exit_def fetch_def Run_entry_def GetOp_def Let_def
        CaptureState_def NewMemory_def newstack_def)
qed

theorem Run_invalid_first_opcode_witness:
  "\<not> valid (JumpTable (cfg ex_in) 0x0c) \<and> abort (in_evm ex_in) = 0 \<and>
   Run ex_in 0 (ex_contract\<lparr>Code := [0x0c]\<rparr>) None =
     Some (Returned None (Some (errInvalidOpcode 12)), ex_in, ex_contract\<lparr>Code := [0x0c]\<rparr>)"
  using Run_invalid_first_opcode [of "ex_contract\<lparr>Code := [0x0c]\<rparr>" "0x0c" "[]" ex_in 0 None]
  by (simp add: ex_contract_def ex_in_def NewInterpreter_def Let_def ex_cfg_def ex_zero_def
      ex_homestead_def ex_evm_def)

subsection \<open>The abort flag\<close>

text \<open>
  Claim C9. The abort flag is read at the head of every iteration. Whenever it is
  found set, the loop returns nil output and no error with the frame exactly as it
  stood, so no further instruction is executed: this holds at any frame, also at the
  one that a completed step has just produced, and when the flag is already set as
  \<^verbatim>\<open>Run\<close> is entered with code to run. The flag is a field of the EVM here; a setting
  by another thread shows as the value the next poll reads.
\<close>

theorem abort_stops_loop:
  "(abort (evm (mach s)) \<noteq> 0 \<longrightarrow> run_loop c gt s = Some (Returned None None, s)) \<and>
   (abort (evm (mach s)) = 0 \<and> step c gt s = Continue s' \<and> abort (evm (mach s')) \<noteq> 0 \<longrightarrow>
      run_loop c gt s = Some (Returned None None, s')) \<and>
   (abort (in_evm i) \<noteq> 0 \<and> Code ctr \<noteq> [] \<longrightarrow>
      Run i snap ctr input =
        Some (Returned None None, i\<lparr>in_returnData := None\<rparr>, ctr\<lparr>Input := input\<rparr>))"
proof (intro conjI impI)
  assume "abort (evm (mach s)) \<noteq> 0"
  then show "run_loop c gt s = Some (Returned None None, s)" by (rule run_loop_abort)
next
  assume h: "abort (evm (mach s)) = 0 \<and> step c gt s = Continue s' \<and> abort (evm (mach s')) \<noteq> 0"
  then have "run_loop c gt s = run_loop c gt s'" by (simp add: run_loop_Continue)
  with h show "run_loop c gt s = Some (Returned None None, s')" by (simp add: run_loop_abort)
next
  assume h: "abort (in_evm i) \<noteq> 0 \<and> Code ctr \<noteq> []"
  then have "abort (evm (mach (Run_entry i ctr input))) \<noteq> 0" by (simp add: Run_entry_def)
  then have "run_loop (cfg i) (gasTable i) (Run_entry i ctr input) =
        Some (Returned None None, Run_entry i ctr input)" by (rule run_loop_abort)
  with h show "Run i snap ctr input =
        Some (Returned None None, i\<lparr>in_returnData := None\<rparr>, ctr\<lparr>Input := input\<rparr>)"
    by (simp add: Run_def Run_exit_def Run_entry_def)
qed

theorem abort_stops_loop_witness:
  "run_loop (cfg ex_in) ()
     (ex_frame ((ex_machine True False [0x60, 0x01, 0x00] 10 [])\<lparr>evm := ex_evm\<lparr>abort := 1\<rparr>\<rparr>)) =
     Some (Returned None None,
           ex_frame ((ex_machine True False [0x60, 0x01, 0x00] 10 [])\<lparr>evm := ex_evm\<lparr>abort := 1\<rparr>\<rparr>)) \<and>
   run_loop ((cfg ex_in)\<lparr>JumpTable := ex_cancelled\<rparr>) ()
     (ex_frame (ex_machine True False [0x60, 0x01, 0x00] 10 [])) =
     Some (Returned None None,
           (ex_frame ((ex_machine True False [0x60, 0x01, 0x00] 7 [1])\<lparr>evm := ex_evm\<lparr>abort := 1\<rparr>\<rparr>))
             \<lparr>pc := 2, op := 0x60, cost := 3\<rparr>) \<and>
   Run (ex_in\<lparr>in_evm := ex_evm\<lparr>abort := 1\<rparr>\<rparr>) 0 ex_contract None =
     Some (Returned None None, ex_in\<lparr>in_evm := ex_evm\<lparr>abort := 1\<rparr>\<rparr>, ex_contract)"
  using abort_stops_loop [where c = "cfg ex_in" and gt = "()" and i = "ex_in\<lparr>in_evm := ex_evm\<lparr>abort := 1\<rparr>\<rparr>"
      and ctr = ex_contract and snap = 0 and input = None
      and s = "ex_frame ((ex_machine True False [0x60, 0x01, 0x00] 10 [])\<lparr>evm := ex_evm\<lparr>abort := 1\<rparr>\<rparr>)"]
    abort_stops_loop [where c = "(cfg ex_in)\<lparr>JumpTable := ex_cancelled\<rparr>" and gt = "()"
      and i = ex_in and ctr = ex_contract and snap = 0 and input = None
      and s = "ex_frame (ex_machine True False [0x60, 0x01, 0x00] 10 [])"
      and s' = "(ex_frame ((ex_machine True False [0x60, 0x01, 0x00] 7 [1])\<lparr>evm := ex_evm\<lparr>abort := 1\<rparr>\<rparr>))
             \<lparr>pc := 2, op := 0x60, cost := 3\<rparr>"]
  by (simp add: ex_defs ex_cancelled_def run_defs)

subsection \<open>Bit lengths, and the checks before the restrictions\<close>

lemma bitlen_nat_pos: "0 < bitlen_nat n \<longleftrightarrow> n \<noteq> 0"
  by (subst bitlen_nat.simps) simp

lemma bitlen_nat_le: "bitlen_nat n \<le> k \<longleftrightarrow> n < 2 ^ k"
proof (induction k arbitrary: n)
  case 0
  show ?case by (subst bitlen_nat.simps) simp
next
  case (Suc k)
  have "bitlen_nat n \<le> Suc k \<longleftrightarrow> n = 0 \<or> bitlen_nat (n div 2) \<le> k"
    by (subst bitlen_nat.simps) simp
  also have "\<dots> \<longleftrightarrow> n = 0 \<or> n div 2 < 2 ^ k" by (simp add: Suc.IH)
  also have "\<dots> \<longleftrightarrow> n < 2 ^ Suc k" by auto
  finally show ?case .
qed

lemma BitLen_pos: "0 < BitLen v \<longleftrightarrow> v \<noteq> 0"
  by (simp add: BitLen_def bitlen_nat_pos)

lemma BitLen_gt_64: "64 < BitLen v \<longleftrightarrow> 2 ^ 64 \<le> \<bar>v\<bar>"
proof -
  have "64 < BitLen v \<longleftrightarrow> \<not> nat \<bar>v\<bar> < 2 ^ 64"
    using bitlen_nat_le [of "nat \<bar>v\<bar>" 64] by (auto simp: BitLen_def)
  also have "\<dots> \<longleftrightarrow> 2 ^ 64 \<le> \<bar>v\<bar>" by (simp add: not_less le_nat_iff)
  finally show ?thesis .
qed

lemma mach_fetch [simp]: "mach (fetch c s) = mach s"
  by (simp add: fetch_def Let_def)

lemma pc_fetch [simp]: "pc (fetch c s) = pc s"
  by (simp add: fetch_def Let_def)

lemma op_fetch [simp]: "op (fetch c s) = GetOp (contract (mach s)) (pc s)"
  by (simp add: fetch_def Let_def)

lemma preExec_restricted:
  "valid (JumpTable c (op (fetch c s))) \<Longrightarrow>
   validateStack (JumpTable c (op (fetch c s))) (stack (mach s)) = None \<Longrightarrow>
   enforceRestrictions (mach s) (op (fetch c s)) (JumpTable c (op (fetch c s))) (stack (mach s)) = Value (Some e) \<Longrightarrow>
   preExec c gt s = Inl (Finished None (Some e) (fetch c s))"
  by (simp add: preExec_def Let_def)

lemma preExec_unrestricted:
  "valid (JumpTable c (op (fetch c s))) \<Longrightarrow>
   validateStack (JumpTable c (op (fetch c s))) (stack (mach s)) = None \<Longrightarrow>
   enforceRestrictions (mach s) (op (fetch c s)) (JumpTable c (op (fetch c s))) (stack (mach s)) = Value None \<Longrightarrow>
   preExec c gt s = sizeAndCharge c gt (JumpTable c (op (fetch c s))) (fetch c s)"
  by (simp add: preExec_def Let_def)

lemma enforceRestrictions_protects:
  "IsByzantium (chainRules (evm mc)) \<Longrightarrow> readOnly mc \<Longrightarrow>
   writes operation \<or> opc = CALL \<and> (\<exists>v. Back st 2 = Some v \<and> v \<noteq> 0) \<Longrightarrow>
   enforceRestrictions mc opc operation st = Value (Some errWriteProtection)"
  by (auto simp: enforceRestrictions_def BitLen_pos)

lemma enforceRestrictions_before_Byzantium:
  "\<not> IsByzantium (chainRules (evm mc)) \<Longrightarrow> enforceRestrictions mc opc operation st = Value None"
  by (simp add: enforceRestrictions_def)

subsection \<open>Write protection in read-only mode\<close>

text \<open>
  Claim C2. Take a step of the loop (abort flag unset) whose operation is valid and
  whose stack passes the operation's validation, so that the step reaches the
  restrictions. If the Byzantium rules are active and the interpreter is read-only,
  and the operation is flagged \<^verbatim>\<open>writes\<close>, or the opcode is CALL and the third stack
  item from the top is not zero, then the run returns nil output and the
  write-protection error, the frame being the one the step started on with the opcode
  fetched. If the Byzantium rules are not active, \<^verbatim>\<open>enforceRestrictions\<close> returns no
  error, whatever the mode and the operation, and the step goes on with the memory
  size and the gas.
\<close>

theorem static_write_protection:
  fixes c :: "('w, 'g) Config" and s :: "('w, 'g) frame"
  defines "s1 \<equiv> fetch c s"
  defines "operation \<equiv> JumpTable c (op (fetch c s))"
  assumes "abort (evm (mach s)) = 0" and "valid operation"
    and "validateStack operation (stack (mach s)) = None"
  shows "(IsByzantium (chainRules (evm (mach s))) \<and> readOnly (mach s) \<and>
          (writes operation \<or>
           op s1 = CALL \<and> (\<exists>v. Back (stack (mach s)) 2 = Some v \<and> v \<noteq> 0)) \<longrightarrow>
            run_loop c gt s = Some (Returned None (Some errWriteProtection), s1)) \<and>
         (\<not> IsByzantium (chainRules (evm (mach s))) \<longrightarrow>
            enforceRestrictions (mach s) (op s1) operation (stack (mach s)) = Value None \<and>
            preExec c gt s = sizeAndCharge c gt operation s1)"
proof (intro conjI impI)
  assume h: "IsByzantium (chainRules (evm (mach s))) \<and> readOnly (mach s) \<and>
          (writes operation \<or>
           op s1 = CALL \<and> (\<exists>v. Back (stack (mach s)) 2 = Some v \<and> v \<noteq> 0))"
  then have "enforceRestrictions (mach s) (op s1) operation (stack (mach s)) =
      Value (Some errWriteProtection)"
    by (intro enforceRestrictions_protects) simp_all
  then have "preExec c gt s = Inl (Finished None (Some errWriteProtection) s1)"
    using assms(4,5) unfolding s1_def operation_def by (rule preExec_restricted [rotated 2])
  then have "step c gt s = Finished None (Some errWriteProtection) s1"
    by (rule step_early)
  with assms(3) show "run_loop c gt s = Some (Returned None (Some errWriteProtection), s1)"
    by (rule run_loop_Finished)
next
  assume h: "\<not> IsByzantium (chainRules (evm (mach s)))"
  then show e: "enforceRestrictions (mach s) (op s1) operation (stack (mach s)) = Value None"
    by (rule enforceRestrictions_before_Byzantium)
  show "preExec c gt s = sizeAndCharge c gt operation s1"
    using assms(4,5) e unfolding s1_def operation_def by (rule preExec_unrestricted)
qed




theorem static_write_protection_witness:
  "run_loop (cfg ex_in) () (ex_frame (ex_machine True True [0x55] 10 [1, 2])) =
     Some (Returned None (Some errWriteProtection),
           fetch (cfg ex_in) (ex_frame (ex_machine True True [0x55] 10 [1, 2]))) \<and>
   writes (JumpTable (cfg ex_in) 0x55) \<and>
   enforceRestrictions (ex_machine False True [0x55] 10 [1, 2]) 0x55 ex_SSTORE \<lparr>data = [1, 2]\<rparr> =
     Value None"
  using static_write_protection [where c = "cfg ex_in" and gt = "()"
      and s = "ex_frame (ex_machine True True [0x55] 10 [1, 2])"]
    static_write_protection [where c = "cfg ex_in" and gt = "()"
      and s = "ex_frame (ex_machine False True [0x55] 10 [1, 2])"]
  by (simp add: ex_defs GetOp_def)

subsection \<open>The arithmetic of the memory size\<close>

lemma unat_toWordSize: "unat (toWordSize x) = (unat x + 31) div 32"
proof -
  have "unat x < 2 ^ LENGTH(64)" by (rule unsigned_less)
  then have "(unat x + 31) div 32 < 2 ^ LENGTH(64)" by simp
  then show ?thesis by (simp add: toWordSize_def unat_of_nat)
qed

lemma round_up_overflow:
  "((2::nat) ^ 64 \<le> (n + 31) div 32 * 32) \<longleftrightarrow> 2 ^ 64 - 32 < n"
proof -
  define K :: nat where "K = 2 ^ 59"
  have k: "(2::nat) ^ 64 = K * 32" by (simp add: K_def)
  have k1: "1 \<le> K" by (simp add: K_def)
  have "(K * 32 \<le> (n + 31) div 32 * 32) \<longleftrightarrow> K \<le> (n + 31) div 32" by simp
  also have "\<dots> \<longleftrightarrow> K * 32 \<le> n + 31" by (simp add: less_eq_div_iff_mult_less_eq)
  also have "\<dots> \<longleftrightarrow> K * 32 - 32 < n" using k1 by arith
  finally show ?thesis by (simp only: k)
qed

lemma SafeMul_toWordSize_overflow:
  "snd (SafeMul (toWordSize x) 32) \<longleftrightarrow> 2 ^ 64 - 32 < unat x"
proof -
  have "snd (SafeMul (toWordSize x) 32) \<longleftrightarrow> (2::nat) ^ 64 \<le> (unat x + 31) div 32 * 32"
    by (simp only: SafeMul_def snd_conv unat_toWordSize unat_numeral) simp
  then show ?thesis by (simp only: round_up_overflow)
qed

lemma size_overflow_iff:
  "(snd (bigUint64 v) \<or> snd (SafeMul (toWordSize (fst (bigUint64 v))) 32)) =
   (2 ^ 64 - 32 < \<bar>v\<bar>)"
proof (cases "2 ^ 64 \<le> \<bar>v\<bar>")
  case True
  then have "snd (bigUint64 v)" by (simp add: bigUint64_def BitLen_gt_64)
  moreover from True have "2 ^ 64 - 32 < \<bar>v\<bar>" by simp
  ultimately show ?thesis by simp
next
  case False
  then have u: "unat (word_of_int \<bar>v\<bar> :: 64 word) = nat \<bar>v\<bar>"
    by (simp add: unat_eq_nat_uint uint_word_of_int)
  have n: "\<not> snd (bigUint64 v)" using False by (simp add: bigUint64_def BitLen_gt_64)
  have "snd (SafeMul (toWordSize (fst (bigUint64 v))) 32) \<longleftrightarrow> 2 ^ 64 - 32 < nat \<bar>v\<bar>"
    by (simp only: SafeMul_toWordSize_overflow bigUint64_def fst_conv u)
  also have "\<dots> \<longleftrightarrow> 2 ^ 64 - 32 < \<bar>v\<bar>" by (simp add: zless_nat_eq_int_zless)
  finally show ?thesis using n by simp
qed

lemma calcMemorySize_overflow:
  "memorySize operation = Some f \<Longrightarrow>
   snd (bigUint64 (f st)) \<or> snd (SafeMul (toWordSize (fst (bigUint64 (f st)))) 32) \<Longrightarrow>
   calcMemorySize operation st = Inl errGasUintOverflow"
  by (auto simp: calcMemorySize_def split: prod.splits)

lemma sizeAndCharge_memory_error:
  "calcMemorySize operation (stack (mach s)) = Inl e \<Longrightarrow>
   sizeAndCharge c gt operation s = Inl (Finished None (Some e) s)"
  by (simp add: sizeAndCharge_def)

lemma sizeAndCharge_sized:
  "calcMemorySize operation (stack (mach s)) = Inr ms \<Longrightarrow>
   sizeAndCharge c gt operation s =
     (case chargeGas c gt operation ms s of
        Inl out \<Rightarrow> Inl out
      | Inr s' \<Rightarrow> Inr (operation, prepare c ms s'))"
  by (simp add: sizeAndCharge_def)

subsection \<open>Overflow of the memory size\<close>

text \<open>
  Claim C6. Take a step that has passed the validity, stack and restriction checks
  and whose operation has a memory-size function. If the conversion of the required
  size to 64 bits reports an overflow, or the multiplication of the word count by 32
  does, the run returns nil output and the gas-overflow error. One of the two happens
  exactly when the absolute value of the required size exceeds \<open>2\<^sup>6\<^sup>4 - 32\<close>, that is
  when the size rounded up to whole words does not fit 64 bits.
\<close>

theorem memory_size_overflow:
  fixes c :: "('w, 'g) Config" and s :: "('w, 'g) frame"
  defines "s1 \<equiv> fetch c s"
  defines "operation \<equiv> JumpTable c (op (fetch c s))"
  assumes "abort (evm (mach s)) = 0" and "valid operation"
    and "validateStack operation (stack (mach s)) = None"
    and "enforceRestrictions (mach s) (op s1) operation (stack (mach s)) = Value None"
    and "memorySize operation = Some f"
  shows "(snd (bigUint64 (f (stack (mach s)))) \<or>
          snd (SafeMul (toWordSize (fst (bigUint64 (f (stack (mach s)))))) 32) \<longrightarrow>
            run_loop c gt s = Some (Returned None (Some errGasUintOverflow), s1)) \<and>
         ((snd (bigUint64 (f (stack (mach s)))) \<or>
           snd (SafeMul (toWordSize (fst (bigUint64 (f (stack (mach s)))))) 32)) =
          (2 ^ 64 - 32 < \<bar>f (stack (mach s))\<bar>))"
proof (intro conjI impI)
  assume "snd (bigUint64 (f (stack (mach s)))) \<or>
          snd (SafeMul (toWordSize (fst (bigUint64 (f (stack (mach s)))))) 32)"
  with assms(7) have "calcMemorySize operation (stack (mach s1)) = Inl errGasUintOverflow"
    unfolding s1_def by (simp add: calcMemorySize_overflow)
  then have "sizeAndCharge c gt operation s1 = Inl (Finished None (Some errGasUintOverflow) s1)"
    by (rule sizeAndCharge_memory_error)
  moreover have "preExec c gt s = sizeAndCharge c gt operation s1"
    using assms(4,5,6) unfolding s1_def operation_def by (rule preExec_unrestricted)
  ultimately have "step c gt s = Finished None (Some errGasUintOverflow) s1"
    by (simp add: step_early)
  with assms(3) show "run_loop c gt s = Some (Returned None (Some errGasUintOverflow), s1)"
    by (rule run_loop_Finished)
next
  show "(snd (bigUint64 (f (stack (mach s)))) \<or>
           snd (SafeMul (toWordSize (fst (bigUint64 (f (stack (mach s)))))) 32)) =
          (2 ^ 64 - 32 < \<bar>f (stack (mach s))\<bar>)"
    by (rule size_overflow_iff)
qed

theorem memory_size_overflow_witness:
  "run_loop (cfg ex_in) () (ex_frame (ex_machine True False [0x52] 10 [1, 2 ^ 64 - 48])) =
     Some (Returned None (Some errGasUintOverflow),
           fetch (cfg ex_in) (ex_frame (ex_machine True False [0x52] 10 [1, 2 ^ 64 - 48]))) \<and>
   snd (SafeMul (toWordSize (fst (bigUint64 (2 ^ 64 - 16)))) 32)"
  using memory_size_overflow [where c = "cfg ex_in" and gt = "()"
      and s = "ex_frame (ex_machine True False [0x52] 10 [1, 2 ^ 64 - 48])"
      and f = "\<lambda>st. last (data st) + 32"]
  by (simp add: ex_defs GetOp_def enforceRestrictions_def bigUint64_def BitLen_gt_64
      SafeMul_toWordSize_overflow)

subsection \<open>The three ways through the gas charge\<close>

lemma chargeGas_disabled:
  "DisableGasMetering c \<Longrightarrow> chargeGas c gt operation ms s = Inr s"
  by (simp add: chargeGas_def)

lemma chargeGas_out_of_gas:
  "\<not> DisableGasMetering c \<Longrightarrow> gasCost operation gt (mach s) ms = (cst, err, mc') \<Longrightarrow>
   err \<noteq> None \<or> Gas (contract mc') < cst \<Longrightarrow>
   chargeGas c gt operation ms s = Inl (Finished None (Some ErrOutOfGas) (s\<lparr>mach := mc', cost := cst\<rparr>))"
  by (auto simp: chargeGas_def UseGas_def Let_def split: option.splits)

lemma chargeGas_paid:
  "\<not> DisableGasMetering c \<Longrightarrow> gasCost operation gt (mach s) ms = (cst, None, mc') \<Longrightarrow>
   cst \<le> Gas (contract mc') \<Longrightarrow>
   chargeGas c gt operation ms s =
     Inr (s\<lparr>mach := mc'\<lparr>contract := (contract mc')\<lparr>Gas := Gas (contract mc') - cst\<rparr>\<rparr>, cost := cst\<rparr>)"
  by (auto simp: chargeGas_def UseGas_def Let_def)

lemma contract_prepare [simp]: "contract (mach (prepare c ms s)) = contract (mach s)"
  by (simp add: prepare_def CaptureState_def Let_def)

lemma pc_prepare [simp]: "pc (prepare c ms s) = pc s"
  by (simp add: prepare_def Let_def)

subsection \<open>The gas of a step\<close>

text \<open>
  Claim C3. Take a step that has passed the validity, stack and restriction checks
  and whose memory size is \<open>ms\<close>, and let the operation's gas-cost function return
  the cost \<open>cst\<close>, the error \<open>err\<close> and the machine \<open>mc'\<close>. With gas metering on: if
  the function returned an error or the contract's gas counter is smaller than the
  cost, the run returns nil output and the out-of-gas error, nothing being deducted;
  otherwise the operation is executed on the frame in which the counter has already
  gone down by exactly the cost. With gas metering disabled the gas-cost function is
  not consulted and the operation is executed with the contract as it was.
\<close>

theorem gas_charged_before_execution:
  fixes c :: "('w, 'g) Config" and s :: "('w, 'g) frame"
  defines "s1 \<equiv> fetch c s"
  defines "operation \<equiv> JumpTable c (op (fetch c s))"
  assumes "abort (evm (mach s)) = 0" and "valid operation"
    and "validateStack operation (stack (mach s)) = None"
    and "enforceRestrictions (mach s) (op s1) operation (stack (mach s)) = Value None"
    and "calcMemorySize operation (stack (mach s)) = Inr ms"
    and "gasCost operation gt (mach s) ms = (cst, err, mc')"
  defines "paid \<equiv> s1\<lparr>mach := mc'\<lparr>contract := (contract mc')\<lparr>Gas := Gas (contract mc') - cst\<rparr>\<rparr>,
                      cost := cst\<rparr>"
  shows "(\<not> DisableGasMetering c \<and> (err \<noteq> None \<or> Gas (contract mc') < cst) \<longrightarrow>
            run_loop c gt s =
              Some (Returned None (Some ErrOutOfGas), s1\<lparr>mach := mc', cost := cst\<rparr>)) \<and>
         (\<not> DisableGasMetering c \<and> err = None \<and> cst \<le> Gas (contract mc') \<longrightarrow>
            step c gt s = dispatch operation (prepare c ms paid) \<and>
            Gas (contract (mach (prepare c ms paid))) = Gas (contract mc') - cst) \<and>
         (DisableGasMetering c \<longrightarrow>
            step c gt s = dispatch operation (prepare c ms s1) \<and>
            contract (mach (prepare c ms s1)) = contract (mach s))"
proof -
  have pre: "preExec c gt s =
      (case chargeGas c gt operation ms s1 of
         Inl out \<Rightarrow> Inl out
       | Inr s' \<Rightarrow> Inr (operation, prepare c ms s'))"
  proof -
    have "preExec c gt s = sizeAndCharge c gt operation s1"
      using assms(4,5,6) unfolding s1_def operation_def by (rule preExec_unrestricted)
    moreover have "calcMemorySize operation (stack (mach s1)) = Inr ms"
      using assms(7) by (simp add: s1_def)
    ultimately show ?thesis by (simp add: sizeAndCharge_sized)
  qed
  have g: "gasCost operation gt (mach s1) ms = (cst, err, mc')"
    using assms(8) by (simp add: s1_def)
  show ?thesis
  proof (intro conjI impI)
    assume h: "\<not> DisableGasMetering c \<and> (err \<noteq> None \<or> Gas (contract mc') < cst)"
    then have "chargeGas c gt operation ms s1 =
        Inl (Finished None (Some ErrOutOfGas) (s1\<lparr>mach := mc', cost := cst\<rparr>))"
      using g by (intro chargeGas_out_of_gas) blast+
    with pre have "step c gt s = Finished None (Some ErrOutOfGas) (s1\<lparr>mach := mc', cost := cst\<rparr>)"
      by (simp add: step_early)
    with assms(3) show "run_loop c gt s =
        Some (Returned None (Some ErrOutOfGas), s1\<lparr>mach := mc', cost := cst\<rparr>)"
      by (rule run_loop_Finished)
  next
    assume h: "\<not> DisableGasMetering c \<and> err = None \<and> cst \<le> Gas (contract mc')"
    then have "chargeGas c gt operation ms s1 = Inr paid"
      using g unfolding paid_def by (intro chargeGas_paid) auto
    with pre show "step c gt s = dispatch operation (prepare c ms paid)"
      by (simp add: step_dispatch)
    show "Gas (contract (mach (prepare c ms paid))) = Gas (contract mc') - cst"
      by (simp add: paid_def)
  next
    assume "DisableGasMetering c"
    then have "chargeGas c gt operation ms s1 = Inr s1" by (rule chargeGas_disabled)
    with pre show "step c gt s = dispatch operation (prepare c ms s1)"
      by (simp add: step_dispatch)
    show "contract (mach (prepare c ms s1)) = contract (mach s)"
      by (simp add: s1_def)
  qed
qed

theorem gas_charged_before_execution_witness:
  "run_loop (cfg ex_in) () (ex_frame (ex_machine True False [0x60, 0x01] 2 [])) =
     Some (Returned None (Some ErrOutOfGas),
           (fetch (cfg ex_in) (ex_frame (ex_machine True False [0x60, 0x01] 2 [])))\<lparr>cost := 3\<rparr>) \<and>
   Gas (contract (mach (prepare (cfg ex_in) 0
      ((fetch (cfg ex_in) (ex_frame (ex_machine True False [0x60, 0x01] 10 [])))
         \<lparr>mach := (ex_machine True False [0x60, 0x01] 10 [])
                    \<lparr>contract := \<lparr>Code = [0x60, 0x01], Input = None, Gas = 10 - 3\<rparr>\<rparr>,
          cost := 3\<rparr>)))) = 7"
  using gas_charged_before_execution [where c = "cfg ex_in" and gt = "()"
      and s = "ex_frame (ex_machine True False [0x60, 0x01] 2 [])" and ms = 0 and cst = 3
      and err = None and mc' = "ex_machine True False [0x60, 0x01] 2 []"]
    gas_charged_before_execution [where c = "cfg ex_in" and gt = "()"
      and s = "ex_frame (ex_machine True False [0x60, 0x01] 10 [])" and ms = 0 and cst = 3
      and err = None and mc' = "ex_machine True False [0x60, 0x01] 10 []"]
  by (simp add: ex_defs GetOp_def enforceRestrictions_def calcMemorySize_def)

subsection \<open>The outcome of the executed operation\<close>

text \<open>
  Claim C4. Take a step that dispatches: everything before the execution has passed
  and the operation is executed on the frame \<open>sx\<close>, returning the bytes \<open>res\<close>, the
  error \<open>err\<close>, the program counter \<open>pc'\<close> and the machine \<open>mc'\<close>. If \<open>err\<close> is an
  error, the run returns nil output and that error. Otherwise, if the operation is
  flagged \<^verbatim>\<open>reverts\<close>, the run returns \<open>res\<close> with the execution-reverted error;
  otherwise, if it is flagged \<^verbatim>\<open>halts\<close>, the run returns \<open>res\<close> and no error;
  otherwise the loop goes on, from the program counter that the operation left when it
  is flagged \<^verbatim>\<open>jumps\<close> and from that counter plus one when it is not.
\<close>

theorem dispatch_classification:
  assumes "abort (evm (mach s)) = 0"
    and "preExec c gt s = Inr (operation, sx)"
    and "execute operation (pc sx) (mach sx) = (res, err, pc', mc')"
  defines "s' \<equiv> sx\<lparr>mach := (if returns operation then mc'\<lparr>returnData := res\<rparr> else mc'),
                    pc := pc'\<rparr>"
  shows "run_loop c gt s =
     (case err of
        Some e \<Rightarrow> Some (Returned None (Some e), s')
      | None \<Rightarrow>
          if reverts operation then Some (Returned res (Some errExecutionReverted), s')
          else if halts operation then Some (Returned res None, s')
          else run_loop c gt (s'\<lparr>pc := (if jumps operation then pc' else pc' + 1)\<rparr>))"
proof -
  have st: "step c gt s = dispatch operation sx"
    using assms(2) by (rule step_dispatch)
  show ?thesis
  proof (cases err)
    case (Some e)
    then have "step c gt s = Finished None (Some e) s'"
      using assms(3) by (simp add: st dispatch_def s'_def Let_def)
    with assms(1) show ?thesis using Some by (simp add: run_loop_Finished)
  next
    case None
    show ?thesis
    proof (cases "reverts operation")
      case True
      then have "step c gt s = Finished res (Some errExecutionReverted) s'"
        using assms(3) None by (simp add: st dispatch_def s'_def Let_def)
      with assms(1) show ?thesis using None True by (simp add: run_loop_Finished)
    next
      case False
      note nr = this
      show ?thesis
      proof (cases "halts operation")
        case True
        then have "step c gt s = Finished res None s'"
          using assms(3) None nr by (simp add: st dispatch_def s'_def Let_def)
        with assms(1) show ?thesis using None nr True by (simp add: run_loop_Finished)
      next
        case False
        then have "step c gt s = Continue (s'\<lparr>pc := (if jumps operation then pc' else pc' + 1)\<rparr>)"
          using assms(3) None nr by (simp add: st dispatch_def s'_def Let_def)
        with assms(1) show ?thesis using None nr False by (simp add: run_loop_Continue)
      qed
    qed
  qed
qed

theorem dispatch_classification_witness:
  "run_loop (cfg ex_in) () (ex_frame (ex_machine True False [0x00] 10 [])) =
     Some (Returned None None, fetch (cfg ex_in) (ex_frame (ex_machine True False [0x00] 10 [])))"
  using dispatch_classification [where c = "cfg ex_in" and gt = "()"
      and s = "ex_frame (ex_machine True False [0x00] 10 [])" and operation = ex_STOP
      and sx = "fetch (cfg ex_in) (ex_frame (ex_machine True False [0x00] 10 []))"
      and res = None and err = None and pc' = 0 and mc' = "ex_machine True False [0x00] 10 []"]
  by (simp add: ex_defs run_defs)

subsection \<open>The call depth\<close>

lemma ex_run:
  "Run ex_in 0 ex_contract None = Some (Returned None None, ex_in, ex_contract\<lparr>Gas := 1\<rparr>)"
  unfolding Run_def
  apply (simp add: ex_defs Run_entry_def newstack_def NewMemory_def)
  apply (subst run_loop.simps, simp add: ex_defs run_defs)+
  apply (simp add: Run_exit_def)
  done

lemma evm_prepare [simp]: "evm (mach (prepare c ms s)) = evm (mach s)"
  by (simp add: prepare_def CaptureState_def Let_def)

lemma dispatch_depth:
  assumes "\<forall>p mc. depth (evm (snd (snd (snd (execute operation p mc))))) = depth (evm mc)"
  shows "depth (evm (mach (outcome_frame (dispatch operation s)))) = depth (evm (mach s))"
proof -
  obtain res err pc' mc' where e: "execute operation (pc s) (mach s) = (res, err, pc', mc')"
    by (cases "execute operation (pc s) (mach s)") auto
  with assms have "depth (evm mc') = depth (evm (mach s))"
    by (metis snd_conv)
  then show ?thesis
    by (simp add: dispatch_def e Let_def split: option.splits)
qed

lemma chargeGas_depth:
  assumes "\<forall>mc ms. depth (evm (snd (snd (gasCost operation gt mc ms)))) = depth (evm mc)"
  shows "chargeGas c gt operation ms s = Inl out \<Longrightarrow>
           depth (evm (mach (outcome_frame out))) = depth (evm (mach s))"
    and "chargeGas c gt operation ms s = Inr s' \<Longrightarrow> depth (evm (mach s')) = depth (evm (mach s))"
proof -
  obtain cst err mc' where g: "gasCost operation gt (mach s) ms = (cst, err, mc')"
    by (cases "gasCost operation gt (mach s) ms") auto
  with assms have d: "depth (evm mc') = depth (evm (mach s))"
    by (metis snd_conv)
  show "chargeGas c gt operation ms s = Inl out \<Longrightarrow>
           depth (evm (mach (outcome_frame out))) = depth (evm (mach s))"
    using d by (auto simp: chargeGas_def g UseGas_def Let_def split: option.splits if_splits)
  show "chargeGas c gt operation ms s = Inr s' \<Longrightarrow> depth (evm (mach s')) = depth (evm (mach s))"
    using d by (auto simp: chargeGas_def g UseGas_def Let_def split: option.splits if_splits)
qed

lemma sizeAndCharge_depth:
  assumes "\<forall>mc ms. depth (evm (snd (snd (gasCost operation gt mc ms)))) = depth (evm mc)"
  shows "sizeAndCharge c gt operation s = Inl out \<Longrightarrow>
           depth (evm (mach (outcome_frame out))) = depth (evm (mach s))"
    and "sizeAndCharge c gt operation s = Inr (operation', sx) \<Longrightarrow>
           operation' = operation \<and> depth (evm (mach sx)) = depth (evm (mach s))"
  using chargeGas_depth [OF assms]
  by (auto simp: sizeAndCharge_def split: sum.splits)

lemma preExec_depth:
  assumes "\<forall>opc g mc ms. depth (evm (snd (snd (gasCost (JumpTable c opc) g mc ms)))) = depth (evm mc)"
  shows "preExec c gt s = Inl out \<Longrightarrow>
           depth (evm (mach (outcome_frame out))) = depth (evm (mach s))"
    and "preExec c gt s = Inr (operation', sx) \<Longrightarrow>
           operation' = JumpTable c (op (fetch c s)) \<and>
           depth (evm (mach sx)) = depth (evm (mach s))"
proof -
  have g: "\<forall>mc ms. depth (evm (snd (snd (gasCost (JumpTable c (op (fetch c s))) gt mc ms)))) =
      depth (evm mc)"
    using assms by blast
  show "preExec c gt s = Inl out \<Longrightarrow>
           depth (evm (mach (outcome_frame out))) = depth (evm (mach s))"
    using sizeAndCharge_depth(1) [OF g, where c = c and s = "fetch c s" and out = out]
    by (auto simp: preExec_def Let_def split: option.splits panicking.splits if_splits)
  show "preExec c gt s = Inr (operation', sx) \<Longrightarrow>
           operation' = JumpTable c (op (fetch c s)) \<and>
           depth (evm (mach sx)) = depth (evm (mach s))"
    using sizeAndCharge_depth(2) [OF g, where c = c and s = "fetch c s" and sx = sx
        and operation' = operation']
    by (auto simp: preExec_def Let_def split: option.splits panicking.splits if_splits)
qed

lemma step_depth:
  assumes "\<forall>opc p mc. depth (evm (snd (snd (snd (execute (JumpTable c opc) p mc))))) = depth (evm mc)"
    and "\<forall>opc g mc ms. depth (evm (snd (snd (gasCost (JumpTable c opc) g mc ms)))) = depth (evm mc)"
  shows "depth (evm (mach (outcome_frame (step c gt s)))) = depth (evm (mach s))"
proof (cases "preExec c gt s")
  case (Inl out)
  with preExec_depth(1) [OF assms(2) Inl] show ?thesis by (simp add: step_def)
next
  case (Inr p)
  obtain operation sx where p: "p = (operation, sx)" by (cases p)
  with Inr have pe: "preExec c gt s = Inr (operation, sx)" by simp
  from preExec_depth(2) [OF assms(2) pe]
  have o: "operation = JumpTable c (op (fetch c s))"
    and d: "depth (evm (mach sx)) = depth (evm (mach s))" by simp_all
  have "\<forall>p mc. depth (evm (snd (snd (snd (execute operation p mc))))) = depth (evm mc)"
    using assms(1) o by blast
  from dispatch_depth [OF this, where s = sx] show ?thesis
    using pe d by (simp add: step_def)
qed

lemma run_loop_depth:
  assumes "run_loop c gt s = Some y"
  shows "(\<forall>opc p mc. depth (evm (snd (snd (snd (execute (JumpTable c opc) p mc))))) = depth (evm mc)) \<longrightarrow>
         (\<forall>opc g mc ms. depth (evm (snd (snd (gasCost (JumpTable c opc) g mc ms)))) = depth (evm mc)) \<longrightarrow>
         depth (evm (mach (snd y))) = depth (evm (mach s))"
proof (rule run_loop.raw_induct [where P = "\<lambda>c gt s y.
         (\<forall>opc p mc. depth (evm (snd (snd (snd (execute (JumpTable c opc) p mc))))) = depth (evm mc)) \<longrightarrow>
         (\<forall>opc g mc ms. depth (evm (snd (snd (gasCost (JumpTable c opc) g mc ms)))) = depth (evm mc)) \<longrightarrow>
         depth (evm (mach (snd y))) = depth (evm (mach s))", OF _ assms])
  fix rl :: "('a, 'b) Config \<Rightarrow> 'b \<Rightarrow> ('a, 'b) frame \<Rightarrow> (run_result \<times> ('a, 'b) frame) option"
    and c gt s y
  assume IH: "\<And>c gt s y. rl c gt s = Some y \<Longrightarrow>
         (\<forall>opc p mc. depth (evm (snd (snd (snd (execute (JumpTable c opc) p mc))))) = depth (evm mc)) \<longrightarrow>
         (\<forall>opc g mc ms. depth (evm (snd (snd (gasCost (JumpTable c opc) g mc ms)))) = depth (evm mc)) \<longrightarrow>
         depth (evm (mach (snd y))) = depth (evm (mach s))"
    and body: "(if abort (evm (mach s)) = 0
          then case step c gt s of
                 Continue s' \<Rightarrow> rl c gt s'
               | Finished r e s' \<Rightarrow> Some (Returned r e, s')
               | Panicked s' \<Rightarrow> Some (Panic, s')
          else Some (Returned None None, s)) = Some y"
  show "(\<forall>opc p mc. depth (evm (snd (snd (snd (execute (JumpTable c opc) p mc))))) = depth (evm mc)) \<longrightarrow>
         (\<forall>opc g mc ms. depth (evm (snd (snd (gasCost (JumpTable c opc) g mc ms)))) = depth (evm mc)) \<longrightarrow>
         depth (evm (mach (snd y))) = depth (evm (mach s))"
  proof (intro impI)
    assume K: "\<forall>opc p mc. depth (evm (snd (snd (snd (execute (JumpTable c opc) p mc))))) = depth (evm mc)"
      and G: "\<forall>opc g mc ms. depth (evm (snd (snd (gasCost (JumpTable c opc) g mc ms)))) = depth (evm mc)"
    note sd = step_depth [OF K G, where gt = gt and s = s]
    show "depth (evm (mach (snd y))) = depth (evm (mach s))"
    proof (cases "abort (evm (mach s)) = 0")
      case False
      with body show ?thesis by auto
    next
      case True
      show ?thesis
      proof (cases "step c gt s")
        case (Continue s')
        with True body have "rl c gt s' = Some y" by simp
        from IH [OF this] K G have "depth (evm (mach (snd y))) = depth (evm (mach s'))" by blast
        with sd Continue show ?thesis by simp
      next
        case (Finished r e s')
        with True body sd show ?thesis by auto
      next
        case (Panicked s')
        with True body sd show ?thesis by auto
      qed
    qed
  qed
qed

lemma Run_exit_depth:
  "depth (in_evm (fst (snd (Run_exit i (res, s))))) = depth (evm (mach s)) - 1"
  by (simp add: Run_exit_def CaptureState_def Let_def split: run_result.splits option.splits)

lemma Run_exit_result: "fst (Run_exit i (res, s)) = res"
  by (simp add: Run_exit_def Let_def)

lemma ex_run_traced:
  "Run (ex_in\<lparr>cfg := (cfg ex_in)\<lparr>Debug := True\<rparr>\<rparr>) 0 (ex_contract\<lparr>Code := [0x00]\<rparr>) None =
     Some (Returned None None,
           ex_in\<lparr>cfg := (cfg ex_in)\<lparr>Debug := True\<rparr>,
                 in_tracer := [\<lparr>c_pc = 0, c_op = 0, c_gas = 10, c_cost = 0, c_mem = [], c_stack = [],
                                c_depth = 1, c_err = None\<rparr>]\<rparr>,
           ex_contract\<lparr>Code := [0x00]\<rparr>)"
  unfolding Run_def
  apply (simp add: ex_defs Run_entry_def newstack_def NewMemory_def)
  apply (subst run_loop.simps, simp add: ex_defs run_defs)+
  apply (simp add: Run_exit_def)
  done

text \<open>
  Claim C8. \<^verbatim>\<open>Run\<close> raises the call depth by exactly one at entry: with code to
  run, its loop starts from the entry frame, whose depth is the caller's plus one (the
  tracer sees that depth). It lowers the depth by exactly one on every way out:
  whatever the loop ends with (a halt, a revert, an error, an abort, a panic) in the
  frame \<open>s\<close>, \<^verbatim>\<open>Run\<close> ends with the same result and with the depth of \<open>s\<close> less one,
  and every result of \<^verbatim>\<open>Run\<close> arises so; with empty code the depth goes up by one
  and down by one around the immediate return. Hence, when the gas-cost and execution
  functions of the instruction table hand the depth back as they found it (nested
  calls re-enter \<^verbatim>\<open>Run\<close>, which is balanced), every run that returns leaves the depth
  at the value it had before the call.
\<close>

theorem depth_balanced:
  "depth (evm (mach (Run_entry i ctr input))) = depth (in_evm i) + 1 \<and>
   (Code ctr \<noteq> [] \<and> run_loop (cfg i) (gasTable i) (Run_entry i ctr input) = Some (res, s) \<longrightarrow>
      (\<exists>i' ctr'. Run i snap ctr input = Some (res, i', ctr') \<and>
         depth (in_evm i') = depth (evm (mach s)) - 1)) \<and>
   (Code ctr \<noteq> [] \<and> Run i snap ctr input = Some (r, i', ctr') \<longrightarrow>
      (\<exists>sf. run_loop (cfg i) (gasTable i) (Run_entry i ctr input) = Some (r, sf) \<and>
         depth (in_evm i') = depth (evm (mach sf)) - 1)) \<and>
   (Code ctr = [] \<longrightarrow>
      (\<exists>i'. Run i snap ctr input = Some (Returned None None, i', ctr) \<and>
         depth (in_evm i') = depth (in_evm i) + 1 - 1)) \<and>
   ((\<forall>opc p mc. depth (evm (snd (snd (snd (execute (JumpTable (cfg i) opc) p mc))))) =
        depth (evm mc)) \<and>
    (\<forall>opc g mc ms. depth (evm (snd (snd (gasCost (JumpTable (cfg i) opc) g mc ms)))) =
        depth (evm mc)) \<and>
    Run i snap ctr input = Some (r, i', ctr') \<longrightarrow>
      depth (in_evm i') = depth (in_evm i))"
proof (intro conjI impI)
  show e: "depth (evm (mach (Run_entry i ctr input))) = depth (in_evm i) + 1"
    by (simp add: Run_entry_def)
next
  assume h: "Code ctr \<noteq> [] \<and> run_loop (cfg i) (gasTable i) (Run_entry i ctr input) = Some (res, s)"
  obtain i' ctr' where x: "Run_exit i (res, s) = (res, i', ctr')"
    using Run_exit_result [of i res s] by (cases "Run_exit i (res, s)") auto
  with Run_exit_depth [of i res s] have "depth (in_evm i') = depth (evm (mach s)) - 1" by simp
  moreover from h x have "Run i snap ctr input = Some (res, i', ctr')"
    by (simp add: Run_def)
  ultimately show "\<exists>i' ctr'. Run i snap ctr input = Some (res, i', ctr') \<and>
         depth (in_evm i') = depth (evm (mach s)) - 1" by blast
next
  assume h: "Code ctr \<noteq> [] \<and> Run i snap ctr input = Some (r, i', ctr')"
  then obtain y where y: "run_loop (cfg i) (gasTable i) (Run_entry i ctr input) = Some y"
    and x: "Run_exit i y = (r, i', ctr')"
    by (auto simp: Run_def)
  obtain res' sf where ys: "y = (res', sf)" by (cases y)
  with x Run_exit_result [of i res' sf] have "res' = r" by simp
  moreover from x ys Run_exit_depth [of i res' sf]
  have "depth (in_evm i') = depth (evm (mach sf)) - 1" by simp
  ultimately show "\<exists>sf. run_loop (cfg i) (gasTable i) (Run_entry i ctr input) = Some (r, sf) \<and>
         depth (in_evm i') = depth (evm (mach sf)) - 1"
    using y ys by blast
next
  assume "Code ctr = []"
  then show "\<exists>i'. Run i snap ctr input = Some (Returned None None, i', ctr) \<and>
         depth (in_evm i') = depth (in_evm i) + 1 - 1"
    by (simp add: Run_def)
next
  assume h: "(\<forall>opc p mc. depth (evm (snd (snd (snd (execute (JumpTable (cfg i) opc) p mc))))) =
        depth (evm mc)) \<and>
    (\<forall>opc g mc ms. depth (evm (snd (snd (gasCost (JumpTable (cfg i) opc) g mc ms)))) =
        depth (evm mc)) \<and>
    Run i snap ctr input = Some (r, i', ctr')"
  show "depth (in_evm i') = depth (in_evm i)"
  proof (cases "length (Code ctr) = 0")
    case True
    with h show ?thesis by (auto simp: Run_def)
  next
    case False
    with h obtain y where y: "run_loop (cfg i) (gasTable i) (Run_entry i ctr input) = Some y"
      and e: "Run_exit i y = (r, i', ctr')"
      by (auto simp: Run_def)
    from run_loop_depth [OF y] h
    have d: "depth (evm (mach (snd y))) = depth (in_evm i) + 1"
      by (simp add: Run_entry_def)
    obtain res' s' where ys: "y = (res', s')" by (cases y)
    with e d Run_exit_depth [of i res' s'] show ?thesis by simp
  qed
qed

theorem depth_balanced_witness:
  "(\<forall>opc p mc. depth (evm (snd (snd (snd (execute (JumpTable (cfg ex_in) opc) p mc))))) =
        depth (evm mc)) \<and>
   (\<forall>opc g mc ms. depth (evm (snd (snd (gasCost (JumpTable (cfg ex_in) opc) g mc ms)))) =
        depth (evm mc)) \<and>
   depth (in_evm ex_in) = 0 \<and>
   depth (evm (mach (Run_entry ex_in ex_contract None))) = 1 \<and>
   Run ex_in 0 ex_contract None = Some (Returned None None, ex_in, ex_contract\<lparr>Gas := 1\<rparr>) \<and>
   (\<exists>sf. run_loop (cfg ex_in) (gasTable ex_in) (Run_entry ex_in ex_contract None) =
           Some (Returned None None, sf) \<and>
         depth (evm (mach sf)) = 1) \<and>
   Run (ex_in\<lparr>cfg := (cfg ex_in)\<lparr>Debug := True\<rparr>\<rparr>) 0 (ex_contract\<lparr>Code := [0x00]\<rparr>) None =
     Some (Returned None None,
           ex_in\<lparr>cfg := (cfg ex_in)\<lparr>Debug := True\<rparr>,
                 in_tracer := [\<lparr>c_pc = 0, c_op = 0, c_gas = 10, c_cost = 0, c_mem = [], c_stack = [],
                                c_depth = 1, c_err = None\<rparr>]\<rparr>,
           ex_contract\<lparr>Code := [0x00]\<rparr>)"
proof -
  note t = depth_balanced [where i = ex_in and ctr = ex_contract and input = None and snap = 0
      and r = "Returned None None" and i' = ex_in and ctr' = "ex_contract\<lparr>Gas := 1\<rparr>"
      and res = "Returned None None" and s = "Run_entry ex_in ex_contract None"]
  have c: "Code ex_contract \<noteq> []" by (simp add: ex_contract_def)
  have k: "\<forall>opc p mc. depth (evm (snd (snd (snd (execute (JumpTable (cfg ex_in) opc) p mc))))) =
        depth (evm mc)"
    by (simp add: ex_defs)
  have g: "\<forall>opc g mc ms. depth (evm (snd (snd (gasCost (JumpTable (cfg ex_in) opc) g mc ms)))) =
        depth (evm mc)"
    by (simp add: ex_defs)
  have d0: "depth (in_evm ex_in) = 0" by (simp add: ex_defs)
  from t have e: "depth (evm (mach (Run_entry ex_in ex_contract None))) = depth (in_evm ex_in) + 1"
    by blast
  from t c ex_run obtain sf
    where "run_loop (cfg ex_in) (gasTable ex_in) (Run_entry ex_in ex_contract None) =
             Some (Returned None None, sf)"
      and "depth (in_evm ex_in) = depth (evm (mach sf)) - 1"
    by blast
  with d0 have x: "\<exists>sf. run_loop (cfg ex_in) (gasTable ex_in) (Run_entry ex_in ex_contract None) =
           Some (Returned None None, sf) \<and> depth (evm (mach sf)) = 1"
    by (metis diff_add_cancel add_0)
  from k g d0 e x ex_run ex_run_traced show ?thesis by simp
qed

subsection \<open>The instruction table of a new interpreter\<close>

text \<open>
  Claim C1, as the code has it. When the caller has supplied no table (the STOP entry
  of the configured table is not valid), a new interpreter uses the Homestead
  instruction set, whatever forks are active at the block number; a table that the
  caller supplied is kept. \<^verbatim>\<open>Run\<close> never changes the interpreter's configuration, so
  the table is the same after a run as before, and every step of a run looks its
  operation up in that one table.
\<close>

theorem NewInterpreter_table:
  "JumpTable (cfg (NewInterpreter hs e c tr)) = (if valid (JumpTable c STOP) then JumpTable c else hs) \<and>
   (Run i snap ctr input = Some (r, i', ctr') \<longrightarrow> cfg i' = cfg i)"
  by (auto simp: NewInterpreter_def Run_def Run_exit_def Let_def split: if_splits prod.splits)

theorem NewInterpreter_table_witness:
  "JumpTable (cfg (NewInterpreter ex_homestead ex_evm ex_cfg [])) = ex_homestead \<and>
   Run ex_in 0 ex_contract None = Some (Returned None None, ex_in, ex_contract\<lparr>Gas := 1\<rparr>) \<and>
   JumpTable (cfg ex_in) = ex_homestead"
  using NewInterpreter_table [where hs = ex_homestead and e = ex_evm and c = ex_cfg and tr = "[]"
      and i = ex_in and snap = 0 and ctr = ex_contract and input = None
      and r = "Returned None None" and i' = ex_in and ctr' = "ex_contract\<lparr>Gas := 1\<rparr>"]
    ex_run
  by (simp add: ex_in_def ex_cfg_def ex_zero_def NewInterpreter_def)

text \<open>
  The claim as stated does not hold: with the Byzantium fork active at the block
  number and no table supplied, the new interpreter's table is the Homestead set and
  not the Byzantium set that the selection by fork would give. The example sets differ
  at REVERT, which only the Byzantium one has.
\<close>

theorem NewInterpreter_ignores_fork:
  "\<not> valid (JumpTable ex_cfg STOP) \<and>
   isForked (ByzantiumBlock (chainConfig ex_evm)) (BlockNumber ex_evm) \<and>
   spec_selectInstructionSet ex_frontier ex_homestead ex_byzantium ex_evm = ex_byzantium \<and>
   JumpTable (cfg (NewInterpreter ex_homestead ex_evm ex_cfg [])) = ex_homestead \<and>
   valid (ex_byzantium 0xfd) \<and> \<not> valid (ex_homestead 0xfd) \<and>
   JumpTable (cfg (NewInterpreter ex_homestead ex_evm ex_cfg [])) \<noteq>
     spec_selectInstructionSet ex_frontier ex_homestead ex_byzantium ex_evm"
proof -
  have a: "\<not> valid (JumpTable ex_cfg STOP)" by (simp add: ex_cfg_def ex_zero_def)
  have b: "isForked (ByzantiumBlock (chainConfig ex_evm)) (BlockNumber ex_evm)"
    by (simp add: isForked_def ex_evm_def)
  have c: "spec_selectInstructionSet ex_frontier ex_homestead ex_byzantium ex_evm = ex_byzantium"
    using b by (simp add: spec_selectInstructionSet_def)
  have d: "JumpTable (cfg (NewInterpreter ex_homestead ex_evm ex_cfg [])) = ex_homestead"
    using a by (simp add: NewInterpreter_def)
  have e: "valid (ex_byzantium 0xfd)" by (simp add: ex_byzantium_def ex_REVERT_def ex_zero_def)
  have f: "\<not> valid (ex_homestead 0xfd)" by (simp add: ex_homestead_def ex_zero_def)
  from e f have "ex_homestead \<noteq> ex_byzantium" by auto
  with a b c d e f show ?thesis by simp
qed

end
